theory Spec2Isabelle
  imports Complex_Main
begin

section \<open>The boiler plant model of boiler.py\<close>

text \<open>
  A shallow embedding of the class \<^verbatim>\<open>Boiler\<close> of \<^verbatim>\<open>src/boiler.py\<close>.
  Python numbers are modelled as reals (the arithmetic of the methods is read over the
  reals; rounding of floats is not modelled). A method call is a function from the
  object before the call to the outcome of the call (a returned value or a raised
  exception) paired with the object after the call: an exception leaves the object as
  the statements executed before it have made it.
\<close>

subsection \<open>Exceptions and outcomes\<close>

text \<open>
  The exceptions a call can end with. \<^verbatim>\<open>ValueError\<close> carries its message: the source
  raises it for a bad efficiency, for a missing economiser or boiler stage and for a
  missing outlet temperature, and only the message tells these apart.
  \<^verbatim>\<open>AttributeError\<close> carries the name of the attribute that was read before it was ever
  assigned. \<^verbatim>\<open>InvalidStateError\<close> stands for a failure of the steam property
  provider.
\<close>

datatype py_error =
    TypeError
  | ValueError string
  | AttributeError string
  | ZeroDivisionError
  | InvalidStateError

datatype 'a outcome = Returned 'a | Raised py_error

definition msg_efficiency :: string where
  "msg_efficiency = ''Efficiency should be in between zero and one.''"

definition msg_no_economiser :: string where
  "msg_no_economiser = ''No economiser present''"

definition msg_both_temperatures :: string where
  "msg_both_temperatures =
     ''If economiser is not fit both input temperature and output temperature should be provided.''"

text \<open>The two literals of the source are concatenated without a space.\<close>

definition msg_no_boiler :: string where
  "msg_no_boiler = ''Please fit boiler as accessories alone cannotdo anything.''"

text \<open>
  \<open>then_do r self k\<close>: an expression evaluated while the object is \<open>self\<close> has outcome
  \<open>r\<close>; an exception ends the call there, with the object as it is; a value is handed to
  the rest \<open>k\<close> of the method.
\<close>

definition then_do ::
  "'a outcome \<Rightarrow> 'obj \<Rightarrow> ('a \<Rightarrow> 'b outcome \<times> 'obj) \<Rightarrow> 'b outcome \<times> 'obj" where
  "then_do r self k = (case r of Raised e \<Rightarrow> (Raised e, self) | Returned v \<Rightarrow> k v)"

text \<open>Python's \<^verbatim>\<open>a / b\<close> on numbers raises on a zero divisor.\<close>

definition py_div :: "real \<Rightarrow> real \<Rightarrow> real outcome" where
  "py_div a b = (if b = 0 then Raised ZeroDivisionError else Returned (a / b))"

subsection \<open>Module constants\<close>

definition specific_volume :: real where
  "specific_volume = 1602 / 100000"

definition cpair :: real where
  "cpair = 1"

definition cpwater :: real where
  "cpwater = 41855 / 10000"

subsection \<open>The object\<close>

text \<open>
  The attributes of a \<^verbatim>\<open>Boiler\<close> instance. The five attributes assigned by
  \<^verbatim>\<open>__init__\<close> always exist; every other attribute exists only once a method has
  assigned it, and the source tests this with \<^verbatim>\<open>hasattr\<close>: such an attribute is an
  option, \<open>None\<close> while it does not exist.
\<close>

record Boiler =
  input_pressure :: real
  pump_work :: real
  economiser_heat :: real
  air_heat :: real
  superheater_heat :: real
  pump_present :: "bool option"
  output_pressure_pump :: "real option"
  economiser_present :: "bool option"
  econ_T1 :: "real option"
  flue_T1 :: "real option"
  flue_T2 :: "real option"
  econ_T2 :: "real option"
  h1 :: "real option"
  h2 :: "real option"
  final_temp :: "real option"
  boiler_heat :: "real option"

definition hasattr :: "'a option \<Rightarrow> bool" where
  "hasattr a = (a \<noteq> None)"

text \<open>Reading \<^verbatim>\<open>self.name\<close>: an attribute that does not exist raises.\<close>

definition getattr :: "string \<Rightarrow> 'a option \<Rightarrow> 'a outcome" where
  "getattr name a = (case a of None \<Rightarrow> Raised (AttributeError name) | Some v \<Rightarrow> Returned v)"

text \<open>\<^verbatim>\<open>__init__(self, P1)\<close>, lines 24 to 33.\<close>

definition init :: "real \<Rightarrow> Boiler" where
  "init P1 =
     \<lparr> input_pressure = P1, pump_work = 0, economiser_heat = 0, air_heat = 0,
       superheater_heat = 0, pump_present = None, output_pressure_pump = None,
       economiser_present = None, econ_T1 = None, flue_T1 = None, flue_T2 = None,
       econ_T2 = None, h1 = None, h2 = None, final_temp = None, boiler_heat = None \<rparr>"

subsection \<open>The steam property provider\<close>

text \<open>
  The class \<^verbatim>\<open>State\<close> is imported from the module \<^verbatim>\<open>state\<close>, which is not part of
  the source at hand: the methods take it as a parameter. \<open>PX p x\<close> is
  \<^verbatim>\<open>State(P=p, x=x)\<close> and \<open>TX t x\<close> is \<^verbatim>\<open>State(T=t, x=x)\<close>; a lookup returns a
  number or raises.
\<close>

datatype state_spec = PX real real | TX real real

record provider =
  getTemp :: "state_spec \<Rightarrow> real outcome"
  getEnthalpy :: "state_spec \<Rightarrow> real outcome"

subsection \<open>The efficiency check and how the methods call it\<close>

text \<open>
  Lines 17 to 21. The function is written in the class body with the one parameter
  \<^verbatim>\<open>eff\<close> (no \<^verbatim>\<open>self\<close>, no \<^verbatim>\<open>staticmethod\<close>). \<open>check_eff\<close> is its body on a
  number.
\<close>

definition check_eff_params :: "string list" where
  "check_eff_params = [''eff'']"

definition check_eff :: "real \<Rightarrow> real outcome" where
  "check_eff eff =
     (if eff > 1 \<or> eff < 0 then Raised (ValueError msg_efficiency) else Returned eff)"

text \<open>
  Python binds the positional arguments of a call to the parameters of the function;
  a call whose number of arguments differs from the number of parameters (there are no
  defaults and no \<^verbatim>\<open>*args\<close> here) raises \<^verbatim>\<open>TypeError\<close> before the body runs.
\<close>

datatype pyval = Instance Boiler | Number real

definition bind_positional :: "string list \<Rightarrow> pyval list \<Rightarrow> (string \<rightharpoonup> pyval) option" where
  "bind_positional params args =
     (if length args = length params then Some (map_of (zip params args)) else None)"

text \<open>
  \<^verbatim>\<open>self._check_eff(eff)\<close>, as lines 43, 96, 116 and 142 call it: the function is
  looked up through the instance, which makes it a bound method, so the instance is
  passed as the first positional argument, before \<^verbatim>\<open>eff\<close>. (Were one argument bound
  to \<^verbatim>\<open>eff\<close> and not a number, the comparison with 1 would raise \<^verbatim>\<open>TypeError\<close>.)
\<close>

definition self_check_eff :: "Boiler \<Rightarrow> real \<Rightarrow> real outcome" where
  "self_check_eff self eff =
     (case bind_positional check_eff_params [Instance self, Number eff] of
        None \<Rightarrow> Raised TypeError
      | Some env \<Rightarrow>
          (case env ''eff'' of
             Some (Number e) \<Rightarrow> check_eff e
           | _ \<Rightarrow> Raised TypeError))"

subsection \<open>feed\_pump\<close>

text \<open>Lines 44 to 48: the statements of \<^verbatim>\<open>feed_pump\<close> after the efficiency check.\<close>

definition feed_pump_rest :: "Boiler \<Rightarrow> real \<Rightarrow> real \<Rightarrow> unit outcome \<times> Boiler" where
  "feed_pump_rest self P2 eff =
     (let s1 = self\<lparr>pump_present := Some True\<rparr>;
          s2 = s1\<lparr>output_pressure_pump := Some P2\<rparr>;
          s3 = s2\<lparr>pump_work := specific_volume * (P2 - input_pressure s2)\<rparr>
      in if eff \<noteq> 1
         then then_do (py_div 1 eff) s3
                (\<lambda>r. (Returned (), s3\<lparr>pump_work := pump_work s3 * r\<rparr>))
         else (Returned (), s3))"

text \<open>\<^verbatim>\<open>feed_pump(self, P2, eff=1)\<close>, lines 36 to 48.\<close>

definition feed_pump :: "Boiler \<Rightarrow> real \<Rightarrow> real \<Rightarrow> unit outcome \<times> Boiler" where
  "feed_pump self P2 eff =
     then_do (self_check_eff self eff) self (\<lambda>eff'. feed_pump_rest self P2 eff')"

subsection \<open>economiser and effectiveness\<close>

text \<open>\<^verbatim>\<open>economiser(self, f1, f2)\<close>, lines 51 to 76.\<close>

definition economiser :: "provider \<Rightarrow> Boiler \<Rightarrow> real \<Rightarrow> real \<Rightarrow> unit outcome \<times> Boiler" where
  "economiser prov self f1 f2 =
     (let s1 = self\<lparr>economiser_present := Some True\<rparr> in
      then_do (if hasattr (pump_present s1)
               then getattr ''output_pressure_pump'' (output_pressure_pump s1)
               else Returned (input_pressure s1)) s1
        (\<lambda>P1.
      then_do (getTemp prov (PX P1 0)) s1
        (\<lambda>t1.
           let s2 = s1\<lparr>econ_T1 := Some t1\<rparr>;
               hot = (if f2 > f1 then f2 else f1);
               cold = (if f2 > f1 then f1 else f2);
               s3 = s2\<lparr>flue_T1 := Some hot\<rparr>;
               s4 = s3\<lparr>flue_T2 := Some cold\<rparr>
           in (Returned (), s4\<lparr>econ_T2 := Some (t1 + cpair * (hot - cold) / cpwater)\<rparr>))))"

text \<open>\<^verbatim>\<open>effectiveness(self)\<close>, lines 79 to 85. The attributes are read left to right.\<close>

definition effectiveness :: "Boiler \<Rightarrow> real outcome \<times> Boiler" where
  "effectiveness self =
     (if \<not> hasattr (economiser_present self)
      then (Raised (ValueError msg_no_economiser), self)
      else
        then_do (getattr ''econ_T2'' (econ_T2 self)) self (\<lambda>e2.
        then_do (getattr ''econ_T1'' (econ_T1 self)) self (\<lambda>e1.
        then_do (getattr ''flue_T1'' (flue_T1 self)) self (\<lambda>f1.
        then_do (py_div (e2 - e1) (f1 - e1)) self (\<lambda>v. (Returned v, self))))))"

subsection \<open>air\_preheater\<close>

text \<open>
  Lines 97 to 101: the outlet temperature the heat is computed from. \<^verbatim>\<open>not Tp2\<close> is
  true of \<^verbatim>\<open>None\<close> and of a zero.
\<close>

definition outlet_air_temp :: "Boiler \<Rightarrow> real option \<Rightarrow> real outcome" where
  "outlet_air_temp self Tp2 =
     (if hasattr (economiser_present self) then getattr ''flue_T2'' (flue_T2 self)
      else (case Tp2 of
              None \<Rightarrow> Raised (ValueError msg_both_temperatures)
            | Some t \<Rightarrow> if t = 0 then Raised (ValueError msg_both_temperatures)
                        else Returned t))"

text \<open>Lines 97 to 105: the statements of \<^verbatim>\<open>air_preheater\<close> after the efficiency check.\<close>

definition air_preheater_rest ::
  "Boiler \<Rightarrow> real \<Rightarrow> real option \<Rightarrow> real \<Rightarrow> unit outcome \<times> Boiler" where
  "air_preheater_rest self Tp1 Tp2 eff =
     then_do (outlet_air_temp self Tp2) self (\<lambda>t2.
       let s1 = self\<lparr>air_heat := cpair * (t2 - Tp1)\<rparr>
       in if eff \<noteq> 1
          then then_do (py_div 1 eff) s1
                 (\<lambda>r. (Returned (), s1\<lparr>air_heat := air_heat s1 * r\<rparr>))
          else (Returned (), s1))"

text \<open>\<^verbatim>\<open>air_preheater(self, Tp1, Tp2=None, eff=1)\<close>, lines 88 to 105.\<close>

definition air_preheater ::
  "Boiler \<Rightarrow> real \<Rightarrow> real option \<Rightarrow> real \<Rightarrow> unit outcome \<times> Boiler" where
  "air_preheater self Tp1 Tp2 eff =
     then_do (self_check_eff self eff) self (\<lambda>eff'. air_preheater_rest self Tp1 Tp2 eff')"

subsection \<open>boiler\<close>

text \<open>Lines 131 to 134, once \<^verbatim>\<open>h1\<close>, \<^verbatim>\<open>h2\<close> and \<^verbatim>\<open>Tb\<close> are there.\<close>

definition boiler_finish :: "Boiler \<Rightarrow> real \<Rightarrow> real \<Rightarrow> unit outcome \<times> Boiler" where
  "boiler_finish self Tb eff =
     (let s1 = self\<lparr>final_temp := Some Tb\<rparr> in
      then_do (getattr ''h2'' (h2 s1)) s1 (\<lambda>h2v.
      then_do (getattr ''h1'' (h1 s1)) s1 (\<lambda>h1v.
        let s2 = s1\<lparr>boiler_heat := Some (h2v - h1v)\<rparr>
        in if eff \<noteq> 1
           then (Returned (), s2\<lparr>boiler_heat := Some ((h2v - h1v) * eff)\<rparr>)
           else (Returned (), s2))))"

text \<open>Lines 122 to 125 and 127 to 130: the lookups at a pressure \<open>Pb\<close>.\<close>

definition boiler_at_pressure ::
  "provider \<Rightarrow> Boiler \<Rightarrow> real \<Rightarrow> real \<Rightarrow> unit outcome \<times> Boiler" where
  "boiler_at_pressure prov self Pb eff =
     then_do (getEnthalpy prov (PX Pb 0)) self (\<lambda>h1v.
       let s1 = self\<lparr>h1 := Some h1v\<rparr> in
     then_do (getEnthalpy prov (PX Pb 1)) s1 (\<lambda>h2v.
       let s2 = s1\<lparr>h2 := Some h2v\<rparr> in
     then_do (getTemp prov (PX Pb 1)) s2 (\<lambda>Tb.
       boiler_finish s2 Tb eff)))"

text \<open>Lines 117 to 134: the statements of \<^verbatim>\<open>boiler\<close> after the efficiency check.\<close>

definition boiler_rest :: "provider \<Rightarrow> Boiler \<Rightarrow> real \<Rightarrow> unit outcome \<times> Boiler" where
  "boiler_rest prov self eff =
     (if hasattr (economiser_present self) then
        then_do (getattr ''econ_T2'' (econ_T2 self)) self (\<lambda>Tb.
        then_do (getEnthalpy prov (TX Tb 0)) self (\<lambda>h1v.
          let s1 = self\<lparr>h1 := Some h1v\<rparr> in
        then_do (getEnthalpy prov (TX Tb 1)) s1 (\<lambda>h2v.
          let s2 = s1\<lparr>h2 := Some h2v\<rparr> in
          boiler_finish s2 Tb eff)))
      else if hasattr (pump_present self) then
        then_do (getattr ''output_pressure_pump'' (output_pressure_pump self)) self (\<lambda>Pb.
          boiler_at_pressure prov self Pb eff)
      else boiler_at_pressure prov self (input_pressure self) eff)"

text \<open>\<^verbatim>\<open>boiler(self, eff=1)\<close>, lines 108 to 134.\<close>

definition boiler :: "provider \<Rightarrow> Boiler \<Rightarrow> real \<Rightarrow> unit outcome \<times> Boiler" where
  "boiler prov self eff =
     then_do (self_check_eff self eff) self (\<lambda>eff'. boiler_rest prov self eff')"

subsection \<open>superheater\<close>

text \<open>Lines 143 to 152: the statements of \<^verbatim>\<open>superheater\<close> after the efficiency check.\<close>

definition superheater_rest :: "Boiler \<Rightarrow> real \<Rightarrow> real \<Rightarrow> unit outcome \<times> Boiler" where
  "superheater_rest self target eff =
     (if \<not> hasattr (boiler_heat self)
      then (Raised (ValueError msg_no_boiler), self)
      else
        then_do (getattr ''final_temp'' (final_temp self)) self (\<lambda>cur.
          let s1 = (if target < cur then self\<lparr>superheater_heat := 0\<rparr>
                    else self\<lparr>superheater_heat := cpwater * (target - cur)\<rparr>);
              s2 = s1\<lparr>final_temp := Some target\<rparr>
          in if eff \<noteq> 1
             then then_do (py_div 1 eff) s2
                    (\<lambda>r. (Returned (), s2\<lparr>superheater_heat := superheater_heat s2 * r\<rparr>))
             else (Returned (), s2)))"

text \<open>\<^verbatim>\<open>superheater(self, final_temp, eff=1)\<close>, lines 137 to 152.\<close>

definition superheater :: "Boiler \<Rightarrow> real \<Rightarrow> real \<Rightarrow> unit outcome \<times> Boiler" where
  "superheater self target eff =
     then_do (self_check_eff self eff) self (\<lambda>eff'. superheater_rest self target eff')"

subsection \<open>efficiency and actual\_heat\<close>

text \<open>The sum in parentheses of lines 161 to 162 and 167 to 168.\<close>

definition accessory_heat :: "Boiler \<Rightarrow> real" where
  "accessory_heat self =
     economiser_heat self + air_heat self + pump_work self + superheater_heat self"

text \<open>\<^verbatim>\<open>efficiency(self, heat_supplied)\<close>, lines 154 to 163.\<close>

definition efficiency :: "Boiler \<Rightarrow> real \<Rightarrow> real outcome \<times> Boiler" where
  "efficiency self heat_supplied =
     (if \<not> hasattr (boiler_heat self)
      then (Raised (ValueError msg_no_boiler), self)
      else
        then_do (getattr ''boiler_heat'' (boiler_heat self)) self (\<lambda>bh.
        then_do (py_div (bh - accessory_heat self) heat_supplied) self (\<lambda>v.
          (Returned v, self))))"

text \<open>\<^verbatim>\<open>actual_heat(self)\<close>, lines 166 to 168: there is no \<^verbatim>\<open>hasattr\<close> test.\<close>

definition actual_heat :: "Boiler \<Rightarrow> real outcome \<times> Boiler" where
  "actual_heat self =
     then_do (getattr ''boiler_heat'' (boiler_heat self)) self (\<lambda>bh.
       (Returned (bh - accessory_heat self), self))"

subsection \<open>Sessions\<close>

text \<open>
  A caller works on one object through a sequence of method calls, and goes on after
  an exception. \<open>after prov c self\<close> is the object after the call \<open>c\<close>, and
  \<open>session prov cs self\<close> the object after the calls \<open>cs\<close> in turn: the objects
  \<open>session prov cs (init P1)\<close> are the reachable ones.
\<close>

datatype call =
    FeedPump real real
  | Economiser real real
  | Effectiveness
  | AirPreheater real "real option" real
  | BoilerStage real
  | Superheater real real
  | Efficiency real
  | ActualHeat

fun after :: "provider \<Rightarrow> call \<Rightarrow> Boiler \<Rightarrow> Boiler" where
  "after prov (FeedPump P2 eff) self = snd (feed_pump self P2 eff)"
| "after prov (Economiser f1 f2) self = snd (economiser prov self f1 f2)"
| "after prov Effectiveness self = snd (effectiveness self)"
| "after prov (AirPreheater Tp1 Tp2 eff) self = snd (air_preheater self Tp1 Tp2 eff)"
| "after prov (BoilerStage eff) self = snd (boiler prov self eff)"
| "after prov (Superheater target eff) self = snd (superheater self target eff)"
| "after prov (Efficiency heat_supplied) self = snd (efficiency self heat_supplied)"
| "after prov ActualHeat self = snd (actual_heat self)"

fun session :: "provider \<Rightarrow> call list \<Rightarrow> Boiler \<Rightarrow> Boiler" where
  "session prov [] self = self"
| "session prov (c # cs) self = session prov cs (after prov c self)"

text \<open>Whether a call ends with an exception.\<close>

fun failed :: "'a outcome \<Rightarrow> bool" where
  "failed (Raised e) = True"
| "failed (Returned v) = False"

fun raises :: "provider \<Rightarrow> call \<Rightarrow> Boiler \<Rightarrow> bool" where
  "raises prov (FeedPump P2 eff) self = failed (fst (feed_pump self P2 eff))"
| "raises prov (Economiser f1 f2) self = failed (fst (economiser prov self f1 f2))"
| "raises prov Effectiveness self = failed (fst (effectiveness self))"
| "raises prov (AirPreheater Tp1 Tp2 eff) self = failed (fst (air_preheater self Tp1 Tp2 eff))"
| "raises prov (BoilerStage eff) self = failed (fst (boiler prov self eff))"
| "raises prov (Superheater target eff) self = failed (fst (superheater self target eff))"
| "raises prov (Efficiency heat_supplied) self = failed (fst (efficiency self heat_supplied))"
| "raises prov ActualHeat self = failed (fst (actual_heat self))"

text \<open>
  A provider to evaluate the methods with: inside its table (pressures above 0 and up
  to 1000) the saturation temperature and the enthalpies are simple linear functions;
  outside it the lookup raises.
\<close>

definition table_provider :: provider where
  "table_provider =
     \<lparr> getTemp = (\<lambda>sp. case sp of
          PX p x \<Rightarrow> if 0 < p \<and> p \<le> 1000 then Returned (p / 2) else Raised InvalidStateError
        | TX t x \<Rightarrow> Returned t),
       getEnthalpy = (\<lambda>sp. case sp of
          PX p x \<Rightarrow> if 0 < p \<and> p \<le> 1000 then Returned (p + 2000 * x)
                    else Raised InvalidStateError
        | TX t x \<Rightarrow> Returned (4 * t + 2000 * x)) \<rparr>"

section \<open>Properties\<close>

subsection \<open>Sequencing\<close>

lemma then_do_Raised: "then_do (Raised e) s k = (Raised e, s)"
  by (simp add: then_do_def)

lemma then_do_Returned: "then_do (Returned v) s k = k v"
  by (simp add: then_do_def)

lemma then_do_keeps:
  "f s = x \<Longrightarrow> (\<And>v. f (snd (k v)) = x) \<Longrightarrow> f (snd (then_do r s k)) = x"
  by (cases r) (simp_all add: then_do_def)

lemma snd_then_do: "(\<And>v. snd (k v) = s) \<Longrightarrow> snd (then_do r s k) = s"
  by (cases r) (simp_all add: then_do_def)


lemmas eval_defs = then_do_def getattr_def hasattr_def init_def table_provider_def
  py_div_def Let_def cpair_def cpwater_def specific_volume_def

subsection \<open>The call of the efficiency check\<close>

lemma self_check_eff_raises: "self_check_eff self eff = Raised TypeError"
  by (simp add: self_check_eff_def bind_positional_def check_eff_params_def)

lemma stage_raises:
  "feed_pump self P2 eff = (Raised TypeError, self)"
  "air_preheater self Tp1 Tp2 eff = (Raised TypeError, self)"
  "boiler prov self eff = (Raised TypeError, self)"
  "superheater self target eff = (Raised TypeError, self)"
  by (simp_all add: feed_pump_def air_preheater_def boiler_def superheater_def
      self_check_eff_raises then_do_def)

text \<open>
  Claim C2. \<^verbatim>\<open>_check_eff\<close> has the single parameter \<^verbatim>\<open>eff\<close> and is called as the bound
  method \<^verbatim>\<open>self._check_eff(eff)\<close>, with two arguments: every call of \<^verbatim>\<open>feed_pump\<close>,
  \<^verbatim>\<open>air_preheater\<close>, \<^verbatim>\<open>boiler\<close> and \<^verbatim>\<open>superheater\<close> raises \<^verbatim>\<open>TypeError\<close>, whatever the
  arguments and whatever the object, before the range of the efficiency is tested and
  with no attribute changed.
\<close>

theorem stage_calls_raise_TypeError:
  "feed_pump self P2 eff = (Raised TypeError, self) \<and>
   air_preheater self Tp1 Tp2 eff = (Raised TypeError, self) \<and>
   boiler prov self eff = (Raised TypeError, self) \<and>
   superheater self target eff = (Raised TypeError, self)"
  by (simp add: feed_pump_def air_preheater_def boiler_def superheater_def
      self_check_eff_raises then_do_def)

text \<open>
  Claim C1. An efficiency below 0 or above 1 is to be rejected by each of
  \<^verbatim>\<open>feed_pump\<close>, \<^verbatim>\<open>air_preheater\<close>, \<^verbatim>\<open>boiler\<close> and \<^verbatim>\<open>superheater\<close> with the error
  for an invalid efficiency, the object unchanged. The body of \<^verbatim>\<open>_check_eff\<close> does
  raise that \<^verbatim>\<open>ValueError\<close> at 2 and at -1, and the object is unchanged, but the four
  methods on \<^verbatim>\<open>Boiler(100)\<close> end with \<^verbatim>\<open>TypeError\<close>: the body is never entered.
\<close>

theorem out_of_range_efficiency_outcome:
  "check_eff 2 = Raised (ValueError msg_efficiency) \<and>
   check_eff (- 1) = Raised (ValueError msg_efficiency) \<and>
   feed_pump (init 100) 150 2 = (Raised TypeError, init 100) \<and>
   air_preheater (init 100) 20 (Some 80) 2 = (Raised TypeError, init 100) \<and>
   boiler table_provider (init 100) 2 = (Raised TypeError, init 100) \<and>
   superheater (init 100) 600 (- 1) = (Raised TypeError, init 100)"
  by (simp add: check_eff_def stage_raises)

subsection \<open>Queries and stages before their prerequisite\<close>

lemma snd_effectiveness: "snd (effectiveness self) = self"
  unfolding effectiveness_def by (simp add: snd_then_do)

lemma snd_efficiency: "snd (efficiency self hs) = self"
  unfolding efficiency_def by (simp add: snd_then_do)

lemma snd_actual_heat: "snd (actual_heat self) = self"
  unfolding actual_heat_def by (simp add: snd_then_do)

text \<open>
  Claim C3. Before the economiser has run \<^verbatim>\<open>effectiveness()\<close> is to fail with the
  precondition error, and before the boiler stage has run so are
  \<^verbatim>\<open>efficiency(heat_supplied)\<close>, \<^verbatim>\<open>actual_heat()\<close> and \<^verbatim>\<open>superheater(...)\<close>, with no
  attribute changed. On \<^verbatim>\<open>Boiler(100)\<close> no attribute changes, and \<^verbatim>\<open>effectiveness\<close>
  and \<^verbatim>\<open>efficiency\<close> raise their \<^verbatim>\<open>ValueError\<close>; but \<^verbatim>\<open>actual_heat\<close>, which has no
  \<^verbatim>\<open>hasattr\<close> test, ends with the \<^verbatim>\<open>AttributeError\<close> of reading \<^verbatim>\<open>boiler_heat\<close>, and
  \<^verbatim>\<open>superheater\<close> ends with \<^verbatim>\<open>TypeError\<close> before its test.
\<close>

theorem calls_before_prerequisite:
  "actual_heat (init 100) = (Raised (AttributeError ''boiler_heat''), init 100) \<and>
   superheater (init 100) 600 1 = (Raised TypeError, init 100) \<and>
   effectiveness (init 100) = (Raised (ValueError msg_no_economiser), init 100) \<and>
   efficiency (init 100) 3000 = (Raised (ValueError msg_no_boiler), init 100)"
  by (simp add: actual_heat_def effectiveness_def efficiency_def stage_raises
      then_do_def getattr_def hasattr_def init_def)

subsection \<open>The statements after the efficiency check\<close>

text \<open>
  What the rest of each stage method does once the check has handed an efficiency back.
\<close>

lemma feed_pump_rest_Returned:
  "eff \<noteq> 0 \<Longrightarrow>
   feed_pump_rest self P2 eff =
     (Returned (),
      self\<lparr>pump_present := Some True, output_pressure_pump := Some P2,
        pump_work := (if eff = 1 then specific_volume * (P2 - input_pressure self)
                      else specific_volume * (P2 - input_pressure self) * (1 / eff))\<rparr>)"
  by (simp add: feed_pump_rest_def py_div_def then_do_def Let_def)

lemma boiler_finish_Returned:
  "h1 self = Some a \<Longrightarrow> h2 self = Some c \<Longrightarrow>
   boiler_finish self Tb eff =
     (Returned (),
      self\<lparr>final_temp := Some Tb,
        boiler_heat := Some (if eff = 1 then c - a else (c - a) * eff)\<rparr>)"
  by (simp add: boiler_finish_def getattr_def then_do_def Let_def)

lemma boiler_at_pressure_Returned:
  "getEnthalpy prov (PX Pb 0) = Returned a \<Longrightarrow> getEnthalpy prov (PX Pb 1) = Returned c \<Longrightarrow>
   getTemp prov (PX Pb 1) = Returned Tb \<Longrightarrow>
   boiler_at_pressure prov self Pb eff =
     (Returned (),
      self\<lparr>h1 := Some a, h2 := Some c, final_temp := Some Tb,
        boiler_heat := Some (if eff = 1 then c - a else (c - a) * eff)\<rparr>)"
  by (simp add: boiler_at_pressure_def then_do_Returned boiler_finish_Returned Let_def)

lemma boiler_rest_economiser:
  "hasattr (economiser_present self) \<Longrightarrow> econ_T2 self = Some Tb \<Longrightarrow>
   getEnthalpy prov (TX Tb 0) = Returned a \<Longrightarrow> getEnthalpy prov (TX Tb 1) = Returned c \<Longrightarrow>
   boiler_rest prov self eff =
     (Returned (),
      self\<lparr>h1 := Some a, h2 := Some c, final_temp := Some Tb,
        boiler_heat := Some (if eff = 1 then c - a else (c - a) * eff)\<rparr>)"
  by (simp add: boiler_rest_def getattr_def then_do_Returned boiler_finish_Returned Let_def)

lemma boiler_rest_pump:
  "\<not> hasattr (economiser_present self) \<Longrightarrow> hasattr (pump_present self) \<Longrightarrow>
   output_pressure_pump self = Some Pb \<Longrightarrow>
   boiler_rest prov self eff = boiler_at_pressure prov self Pb eff"
  by (simp add: boiler_rest_def getattr_def then_do_Returned)

lemma boiler_rest_input:
  "\<not> hasattr (economiser_present self) \<Longrightarrow> \<not> hasattr (pump_present self) \<Longrightarrow>
   boiler_rest prov self eff = boiler_at_pressure prov self (input_pressure self) eff"
  by (simp add: boiler_rest_def)

lemma outlet_air_temp_economiser:
  "hasattr (economiser_present self) \<Longrightarrow> flue_T2 self = Some t \<Longrightarrow>
   outlet_air_temp self Tp2 = Returned t"
  by (simp add: outlet_air_temp_def getattr_def)

lemma outlet_air_temp_missing:
  "\<not> hasattr (economiser_present self) \<Longrightarrow>
   outlet_air_temp self None = Raised (ValueError msg_both_temperatures)"
  by (simp add: outlet_air_temp_def)

lemma air_preheater_rest_Returned:
  "outlet_air_temp self Tp2 = Returned t2 \<Longrightarrow> eff \<noteq> 0 \<Longrightarrow>
   air_preheater_rest self Tp1 Tp2 eff =
     (Returned (),
      self\<lparr>air_heat := (if eff = 1 then cpair * (t2 - Tp1)
                       else cpair * (t2 - Tp1) * (1 / eff))\<rparr>)"
  by (simp add: air_preheater_rest_def py_div_def then_do_def Let_def)

lemma superheater_rest_Returned:
  "hasattr (boiler_heat self) \<Longrightarrow> final_temp self = Some cur \<Longrightarrow> eff \<noteq> 0 \<Longrightarrow>
   superheater_rest self target eff =
     (Returned (),
      self\<lparr>superheater_heat :=
             (if target < cur then 0 else cpwater * (target - cur))
               * (if eff = 1 then 1 else 1 / eff),
        final_temp := Some target\<rparr>)"
  by (simp add: superheater_rest_def getattr_def py_div_def then_do_def Let_def)

text \<open>
  Claim C4. \<^verbatim>\<open>boiler(eff)\<close> is to choose its operating point (economiser before pump
  before input pressure), to set \<^verbatim>\<open>boiler_heat\<close> to \<open>h2 - h1\<close>, multiplied by an
  efficiency below 1, and to set \<^verbatim>\<open>final_temp\<close> to the saturation temperature. On
  \<^verbatim>\<open>Boiler(100)\<close> the statements after the check do so (the input pressure path, with
  the enthalpies 100 and 2100 and the temperature 50 of the table), but the call itself
  ends with \<^verbatim>\<open>TypeError\<close> and sets nothing.
\<close>

theorem boiler_on_new_object:
  "boiler table_provider (init 100) 1 = (Raised TypeError, init 100) \<and>
   boiler_rest table_provider (init 100) 1 =
     (Returned (), (init 100)\<lparr>h1 := Some 100, h2 := Some 2100, final_temp := Some 50,
        boiler_heat := Some 2000\<rparr>)"
  by (simp add: stage_raises boiler_rest_def boiler_at_pressure_def boiler_finish_def eval_defs)

text \<open>
  Claim C6. \<^verbatim>\<open>air_preheater(Tp1, Tp2, eff)\<close> is to take the outlet temperature from
  \<^verbatim>\<open>flue_T2\<close> when the economiser has run, to fail for a missing outlet temperature
  when it has not and none is given, and otherwise to set \<^verbatim>\<open>air_heat\<close> to
  \<open>cpair * (Tp2 - Tp1)\<close>, divided by an efficiency below 1. On \<^verbatim>\<open>Boiler(100)\<close> with
  the temperatures 20 and 80 the statements after the check set \<^verbatim>\<open>air_heat\<close> to 60,
  but the call itself ends with \<^verbatim>\<open>TypeError\<close> and sets nothing. (After the check, an
  outlet temperature of 0 is taken for a missing one.)
\<close>

theorem air_preheater_on_new_object:
  "air_preheater (init 100) 20 (Some 80) 1 = (Raised TypeError, init 100) \<and>
   air_preheater_rest (init 100) 20 (Some 80) 1 =
     (Returned (), (init 100)\<lparr>air_heat := 60\<rparr>) \<and>
   air_preheater_rest (init 100) 20 (Some 0) 1 =
     (Raised (ValueError msg_both_temperatures), init 100)"
  by (simp add: stage_raises air_preheater_rest_def outlet_air_temp_def eval_defs)

text \<open>
  Claim C8. After the boiler stage, \<^verbatim>\<open>superheater(target, eff)\<close> is to set
  \<^verbatim>\<open>superheater_heat\<close> to 0 for a target below \<^verbatim>\<open>final_temp\<close> and to
  \<open>cpwater * (target - final_temp)\<close> otherwise, divided by an efficiency below 1, and
  to set \<^verbatim>\<open>final_temp\<close> to the target. The calls \<^verbatim>\<open>boiler()\<close> and
  \<^verbatim>\<open>superheater(600)\<close> on \<^verbatim>\<open>Boiler(100)\<close> leave the object as it was constructed:
  \<^verbatim>\<open>superheater\<close> ends with \<^verbatim>\<open>TypeError\<close>. The statements after the check, on an
  object as the boiler stage would have left it, set the heat and the temperature.
\<close>

theorem superheater_after_boiler_call:
  "session table_provider [BoilerStage 1, Superheater 600 1] (init 100) = init 100 \<and>
   superheater (init 100) 600 1 = (Raised TypeError, init 100) \<and>
   superheater_rest
     ((init 100)\<lparr>h1 := Some 100, h2 := Some 2100, final_temp := Some 50,
        boiler_heat := Some 2000\<rparr>) 600 1 =
     (Returned (),
      (init 100)\<lparr>h1 := Some 100, h2 := Some 2100, final_temp := Some 600,
        boiler_heat := Some 2000, superheater_heat := cpwater * (600 - 50)\<rparr>)"
  by (simp add: stage_raises superheater_rest_def then_do_def getattr_def hasattr_def init_def
        py_div_def Let_def)

subsection \<open>An efficiency of zero\<close>

text \<open>
  The statements after the check divide by the efficiency with no test for 0. Handed
  the efficiency 0, those of \<^verbatim>\<open>feed_pump\<close> raise after three assignments; those of
  \<^verbatim>\<open>air_preheater\<close> raise after the assignment of \<^verbatim>\<open>air_heat\<close>, once an outlet
  temperature is there; those of \<^verbatim>\<open>superheater\<close> raise after two assignments, once
  \<^verbatim>\<open>boiler_heat\<close> and \<^verbatim>\<open>final_temp\<close> exist.
\<close>

lemma feed_pump_rest_zero:
  "feed_pump_rest self P2 0 =
     (Raised ZeroDivisionError,
      self\<lparr>pump_present := Some True, output_pressure_pump := Some P2,
        pump_work := specific_volume * (P2 - input_pressure self)\<rparr>)"
  by (simp add: feed_pump_rest_def py_div_def then_do_def Let_def)

lemma air_preheater_rest_zero:
  "outlet_air_temp self Tp2 = Returned t2 \<Longrightarrow>
   air_preheater_rest self Tp1 Tp2 0 =
     (Raised ZeroDivisionError, self\<lparr>air_heat := cpair * (t2 - Tp1)\<rparr>)"
  by (simp add: air_preheater_rest_def py_div_def then_do_def Let_def)

lemma superheater_rest_zero:
  "hasattr (boiler_heat self) \<Longrightarrow> final_temp self = Some cur \<Longrightarrow>
   superheater_rest self target 0 =
     (Raised ZeroDivisionError,
      self\<lparr>superheater_heat := (if target < cur then 0 else cpwater * (target - cur)),
        final_temp := Some target\<rparr>)"
  by (simp add: superheater_rest_def py_div_def then_do_def getattr_def Let_def)

text \<open>
  Claim C10. The efficiency 0 lies inside the range the check accepts, and passed to
  \<^verbatim>\<open>feed_pump\<close>, \<^verbatim>\<open>air_preheater\<close> or \<^verbatim>\<open>superheater\<close> it is to make the call fail
  with a division by zero, in \<^verbatim>\<open>feed_pump\<close> and \<^verbatim>\<open>air_preheater\<close> after attributes
  have been assigned. The body of \<^verbatim>\<open>_check_eff\<close> does return 0, and on \<^verbatim>\<open>Boiler(100)\<close>
  the statements after the check do raise \<^verbatim>\<open>ZeroDivisionError\<close> with \<^verbatim>\<open>pump_present\<close>,
  \<^verbatim>\<open>output_pressure_pump\<close> and \<^verbatim>\<open>pump_work\<close> (or \<^verbatim>\<open>air_heat\<close>) assigned; but the calls
  \<^verbatim>\<open>feed_pump(150, eff=0)\<close>, \<^verbatim>\<open>air_preheater(20, 80, eff=0)\<close> and
  \<^verbatim>\<open>superheater(600, eff=0)\<close> themselves end with \<^verbatim>\<open>TypeError\<close>, the object unchanged:
  the division is never reached.
\<close>

theorem zero_efficiency_on_new_object:
  "check_eff 0 = Returned 0 \<and>
   feed_pump (init 100) 150 0 = (Raised TypeError, init 100) \<and>
   air_preheater (init 100) 20 (Some 80) 0 = (Raised TypeError, init 100) \<and>
   superheater (init 100) 600 0 = (Raised TypeError, init 100) \<and>
   fst (feed_pump (init 100) 150 0) \<noteq> Raised ZeroDivisionError \<and>
   feed_pump_rest (init 100) 150 0 =
     (Raised ZeroDivisionError,
      (init 100)\<lparr>pump_present := Some True, output_pressure_pump := Some 150,
        pump_work := 801 / 1000\<rparr>) \<and>
   air_preheater_rest (init 100) 20 (Some 80) 0 =
     (Raised ZeroDivisionError, (init 100)\<lparr>air_heat := 60\<rparr>)"
  by (simp add: check_eff_def stage_raises feed_pump_rest_def air_preheater_rest_def
      outlet_air_temp_def eval_defs)

subsection \<open>The economiser\<close>

lemma hot_is_max: "(if f1 < f2 then f2 else f1) = max f1 (f2::real)"
  by auto

lemma cold_is_min: "(if f1 < f2 then f1 else f2) = min f1 (f2::real)"
  by auto

text \<open>The method with its assignments collected: the swap of line 72 is a maximum and a minimum.\<close>

lemma economiser_max_min:
  "economiser prov self f1 f2 =
     then_do (if hasattr (pump_present self)
              then getattr ''output_pressure_pump'' (output_pressure_pump self)
              else Returned (input_pressure self)) (self\<lparr>economiser_present := Some True\<rparr>)
       (\<lambda>P1.
     then_do (getTemp prov (PX P1 0)) (self\<lparr>economiser_present := Some True\<rparr>)
       (\<lambda>t1. (Returned (),
          self\<lparr>economiser_present := Some True, econ_T1 := Some t1,
            flue_T1 := Some (max f1 f2), flue_T2 := Some (min f1 f2),
            econ_T2 := Some (t1 + cpair * (max f1 f2 - min f1 f2) / cpwater)\<rparr>)))"
  unfolding economiser_def Let_def hot_is_max cold_is_min by simp



lemma economiser_failed:
  assumes "failed (fst (economiser prov self f1 f2))"
  shows "snd (economiser prov self f1 f2) = self\<lparr>economiser_present := Some True\<rparr>"
proof -
  let ?p = "if hasattr (pump_present self)
            then getattr ''output_pressure_pump'' (output_pressure_pump self)
            else Returned (input_pressure self)"
  show ?thesis
  proof (cases ?p)
    case (Raised e)
    then show ?thesis by (simp add: economiser_max_min then_do_Raised)
  next
    case p: (Returned P1)
    show ?thesis
    proof (cases "getTemp prov (PX P1 0)")
      case (Raised e)
      with p show ?thesis
        by (simp add: economiser_max_min then_do_Raised then_do_Returned)
    next
      case (Returned t1)
      with p assms show ?thesis
        by (simp add: economiser_max_min then_do_Returned)
    qed
  qed
qed



subsection \<open>The object after a call that raises\<close>

text \<open>
  Claim C5, as stated: every operation that raises leaves every attribute as it was
  before the call, a failure of the provider included. On \<^verbatim>\<open>Boiler(5000)\<close>, whose
  pressure is outside the table, \<^verbatim>\<open>economiser(400, 300)\<close> raises the provider's error
  and leaves \<^verbatim>\<open>economiser_present\<close> set: line 58 assigns it before line 68 looks the
  temperature up.
\<close>

theorem economiser_marks_before_lookup:
  "economiser table_provider (init 5000) 400 300 =
     (Raised InvalidStateError, (init 5000)\<lparr>economiser_present := Some True\<rparr>) \<and>
   (init 5000)\<lparr>economiser_present := Some True\<rparr> \<noteq> init 5000"
  by (simp add: economiser_def eval_defs)

text \<open>
  Claim C5, amended. A call that raises leaves every attribute as it was before the
  call, except that \<^verbatim>\<open>economiser\<close>, which marks the economiser as present before it
  reads the pump's pressure and queries the provider, leaves \<^verbatim>\<open>economiser_present\<close>
  set (and nothing else changed) when it raises.
\<close>

theorem raising_call_leaves_object:
  "raises prov c self \<Longrightarrow>
   after prov c self =
     (case c of Economiser f1 f2 \<Rightarrow> self\<lparr>economiser_present := Some True\<rparr> | _ \<Rightarrow> self)"
  by (cases c)
     (simp_all add: stage_raises economiser_failed snd_effectiveness snd_efficiency
       snd_actual_heat)

theorem raising_call_leaves_object_witness:
  "raises table_provider (Economiser 400 300) (init 5000) \<and>
   after table_provider (Economiser 400 300) (init 5000) =
     (init 5000)\<lparr>economiser_present := Some True\<rparr> \<and>
   raises table_provider ActualHeat (init 5000) \<and>
   after table_provider ActualHeat (init 5000) = init 5000"
proof -
  have r: "raises table_provider (Economiser 400 300) (init 5000)"
    by (simp add: economiser_def eval_defs)
  have q: "raises table_provider ActualHeat (init 5000)"
    by (simp add: actual_heat_def eval_defs)
  from raising_call_leaves_object [OF r] raising_call_leaves_object [OF q] r q
  show ?thesis by simp
qed

subsection \<open>The heat of the economiser\<close>

lemma economiser_keeps_economiser_heat:
  "economiser_heat (snd (economiser prov self f1 f2)) = economiser_heat self"
  unfolding economiser_max_min
  by (rule then_do_keeps, simp, rule then_do_keeps) simp_all

lemma after_keeps_economiser_heat:
  "economiser_heat (after prov c self) = economiser_heat self"
  by (cases c)
     (simp_all add: stage_raises economiser_keeps_economiser_heat snd_effectiveness
       snd_efficiency snd_actual_heat)

lemma session_keeps_economiser_heat:
  "economiser_heat (session prov cs self) = economiser_heat self"
  by (induction cs arbitrary: self) (simp_all add: after_keeps_economiser_heat)

text \<open>The statements after the efficiency check do not assign the attribute either.\<close>

lemma rest_keeps_economiser_heat:
  "economiser_heat (snd (feed_pump_rest self P2 eff)) = economiser_heat self"
  "economiser_heat (snd (air_preheater_rest self Tp1 Tp2 eff)) = economiser_heat self"
  "economiser_heat (snd (superheater_rest self target eff)) = economiser_heat self"
proof -
  show "economiser_heat (snd (feed_pump_rest self P2 eff)) = economiser_heat self"
    by (simp add: feed_pump_rest_def py_div_def then_do_def Let_def)
  show "economiser_heat (snd (air_preheater_rest self Tp1 Tp2 eff)) = economiser_heat self"
    unfolding air_preheater_rest_def
    by (rule then_do_keeps) (simp_all add: py_div_def then_do_def Let_def)
  show "economiser_heat (snd (superheater_rest self target eff)) = economiser_heat self"
    by (cases "final_temp self")
       (simp_all add: superheater_rest_def getattr_def py_div_def then_do_def Let_def)
qed

lemma boiler_finish_keeps_economiser_heat:
  "economiser_heat (snd (boiler_finish self Tb eff)) = economiser_heat self"
  unfolding boiler_finish_def Let_def
  by (rule then_do_keeps, simp, rule then_do_keeps) simp_all

lemma boiler_at_pressure_keeps_economiser_heat:
  "economiser_heat (snd (boiler_at_pressure prov self Pb eff)) = economiser_heat self"
  unfolding boiler_at_pressure_def Let_def
  by (rule then_do_keeps, simp, rule then_do_keeps, simp, rule then_do_keeps)
     (simp_all add: boiler_finish_keeps_economiser_heat)

lemma boiler_rest_keeps_economiser_heat:
  "economiser_heat (snd (boiler_rest prov self eff)) = economiser_heat self"
proof -
  have "economiser_heat (snd (
        then_do (getattr ''econ_T2'' (econ_T2 self)) self (\<lambda>Tb.
        then_do (getEnthalpy prov (TX Tb 0)) self (\<lambda>h1v.
        then_do (getEnthalpy prov (TX Tb 1)) (self\<lparr>h1 := Some h1v\<rparr>) (\<lambda>h2v.
          boiler_finish (self\<lparr>h1 := Some h1v, h2 := Some h2v\<rparr>) Tb eff))))) =
       economiser_heat self"
    by (rule then_do_keeps, simp, rule then_do_keeps, simp, rule then_do_keeps)
       (simp_all add: boiler_finish_keeps_economiser_heat)
  moreover have "economiser_heat (snd (
        then_do (getattr ''output_pressure_pump'' (output_pressure_pump self)) self (\<lambda>Pb.
          boiler_at_pressure prov self Pb eff))) = economiser_heat self"
    by (rule then_do_keeps) (simp_all add: boiler_at_pressure_keeps_economiser_heat)
  ultimately show ?thesis
    by (simp add: boiler_rest_def Let_def boiler_at_pressure_keeps_economiser_heat)
qed

text \<open>
  No sequence of calls on a constructed object ever assigns \<^verbatim>\<open>boiler_heat\<close>: the only
  method that does ends with \<^verbatim>\<open>TypeError\<close> before it gets there.
\<close>

lemma economiser_keeps_boiler_heat:
  "boiler_heat (snd (economiser prov self f1 f2)) = boiler_heat self"
  unfolding economiser_max_min
  by (rule then_do_keeps, simp, rule then_do_keeps) simp_all

lemma after_keeps_boiler_heat: "boiler_heat (after prov c self) = boiler_heat self"
  by (cases c)
     (simp_all add: stage_raises economiser_keeps_boiler_heat snd_effectiveness
       snd_efficiency snd_actual_heat)

lemma boiler_heat_never_assigned: "boiler_heat (session prov cs (init P1)) = None"
proof -
  have "boiler_heat (session prov cs self) = boiler_heat self" for self
    by (induction cs arbitrary: self) (simp_all add: after_keeps_boiler_heat)
  then show ?thesis by (simp add: init_def)
qed

text \<open>
  Claim C9. No operation assigns \<^verbatim>\<open>economiser_heat\<close>, so it is 0 in every object
  reached from a constructed one by any sequence of calls; and on an object whose
  \<^verbatim>\<open>economiser_heat\<close> is 0 and whose \<^verbatim>\<open>boiler_heat\<close> exists, \<^verbatim>\<open>actual_heat()\<close> returns
  \<open>boiler_heat - (air_heat + pump_work + superheater_heat)\<close> and
  \<^verbatim>\<open>efficiency(heat_supplied)\<close> returns that numerator divided by \<^verbatim>\<open>heat_supplied\<close>
  (it raises on a zero \<^verbatim>\<open>heat_supplied\<close>).
\<close>

theorem economiser_heat_stays_zero:
  "economiser_heat (after prov c self) = economiser_heat self \<and>
   economiser_heat (session prov cs (init P1)) = 0 \<and>
   (economiser_heat obj = 0 \<longrightarrow> boiler_heat obj = Some bh \<longrightarrow>
      actual_heat obj =
        (Returned (bh - (air_heat obj + pump_work obj + superheater_heat obj)), obj) \<and>
      efficiency obj heat_supplied =
        (if heat_supplied = 0 then (Raised ZeroDivisionError, obj)
         else (Returned ((bh - (air_heat obj + pump_work obj + superheater_heat obj))
                 / heat_supplied), obj)))"
proof -
  have "economiser_heat (session prov cs (init P1)) = 0"
    by (simp add: session_keeps_economiser_heat init_def)
  moreover have "actual_heat obj =
        (Returned (bh - (air_heat obj + pump_work obj + superheater_heat obj)), obj)"
    if "economiser_heat obj = 0" "boiler_heat obj = Some bh"
    using that by (simp add: actual_heat_def accessory_heat_def getattr_def then_do_def)
  moreover have "efficiency obj heat_supplied =
        (if heat_supplied = 0 then (Raised ZeroDivisionError, obj)
         else (Returned ((bh - (air_heat obj + pump_work obj + superheater_heat obj))
                 / heat_supplied), obj))"
    if "economiser_heat obj = 0" "boiler_heat obj = Some bh"
    using that
    by (simp add: efficiency_def accessory_heat_def getattr_def hasattr_def py_div_def
        then_do_def)
  ultimately show ?thesis
    using after_keeps_economiser_heat [of prov c self] by blast
qed

theorem economiser_heat_stays_zero_witness:
  "economiser_heat (session table_provider [Economiser 400 300, FeedPump 150 1] (init 100)) = 0 \<and>
   economiser_heat ((init 100)\<lparr>boiler_heat := Some 2000, air_heat := 60\<rparr>) = 0 \<and>
   boiler_heat ((init 100)\<lparr>boiler_heat := Some 2000, air_heat := 60\<rparr>) = Some 2000 \<and>
   actual_heat ((init 100)\<lparr>boiler_heat := Some 2000, air_heat := 60\<rparr>) =
     (Returned 1940, (init 100)\<lparr>boiler_heat := Some 2000, air_heat := 60\<rparr>) \<and>
   efficiency ((init 100)\<lparr>boiler_heat := Some 2000, air_heat := 60\<rparr>) 4 =
     (Returned 485, (init 100)\<lparr>boiler_heat := Some 2000, air_heat := 60\<rparr>)"
proof -
  let ?obj = "(init 100)\<lparr>boiler_heat := Some 2000, air_heat := 60\<rparr>"
  have h: "economiser_heat ?obj = 0" "boiler_heat ?obj = Some 2000"
    by (simp_all add: init_def)
  have v: "air_heat ?obj = 60" "pump_work ?obj = 0" "superheater_heat ?obj = 0"
    by (simp_all add: init_def)
  from economiser_heat_stays_zero [of table_provider "Economiser 400 300" "init 100"
      "[Economiser 400 300, FeedPump 150 1]" 100 ?obj 2000 4] h v
  show ?thesis by simp
qed

end
